theory Spec2Isabelle
  imports Complex_Main "HOL-Library.Char_ord" "HOL-Library.List_Lexorder" "HOL-Library.AList"
begin

section \<open>The program\<close>

text \<open>
  The scheduling application \<open>streamlit_app.py\<close>: its domain helpers, its access gate, the
  flat-file side of its persistence adapter, and the parts of its pages that decide what is
  written and what is reported. Widgets' values, the clock and the tables are arguments;
  what a function raises is a value of \<open>error\<close>.
\<close>

subsection \<open>Texts and their order\<close>

text \<open>
  Python compares two \<open>str\<close> values lexicographically by code point, a proper prefix being
  smaller. Texts are \<open>string\<close>s here, ordered by the lexicographic order on lists over the
  order of characters by their code; on UTF-8 bytes that order is the order of code points.
\<close>

subsection \<open>The overlap predicate\<close>

text \<open>
  \<^verbatim>\<open>def overlaps(a_start, a_end, b_start, b_end):
      return not (a_end <= b_start or b_end <= a_start)\<close>
\<close>

definition overlaps :: "string \<Rightarrow> string \<Rightarrow> string \<Rightarrow> string \<Rightarrow> bool" where
  "overlaps a_start a_end b_start b_end = (\<not> (a_end \<le> b_start \<or> b_end \<le> a_start))"

subsection \<open>Exceptions\<close>

text \<open>
  The exceptions the modelled code can raise. \<open>NotModelled\<close> marks a branch the model does
  not follow (a conversion of arbitrary text to a number, a text that is not a plain date):
  nothing is claimed about the program there.
\<close>

datatype error =
  ValueError | TypeError | KeyError | IndexError | AttributeError | ZeroDivisionError | NotModelled

subsection \<open>Reading numbers and times of day\<close>

text \<open>
  \<open>int(s)\<close> on a text: surrounding whitespace is dropped, then an optional sign, then decimal
  digits, where single underscores may separate digits. Texts are bytes here, so whitespace
  and digits beyond ASCII are not recognised.
\<close>

definition isspace :: "char \<Rightarrow> bool" where
  "isspace c = (of_char c \<in> {9, 10, 11, 12, 13, 28, 29, 30, 31, 32 :: nat})"

definition strip :: "string \<Rightarrow> string" where
  "strip s = rev (dropWhile isspace (rev (dropWhile isspace s)))"

definition digit_of :: "char \<Rightarrow> nat option" where
  "digit_of c = (let n = of_char c :: nat in if 48 \<le> n \<and> n \<le> 57 then Some (n - 48) else None)"

fun int_digits :: "nat \<Rightarrow> string \<Rightarrow> nat option" where
  "int_digits acc [] = Some acc"
| "int_digits acc [c] = (case digit_of c of Some v \<Rightarrow> Some (10 * acc + v) | None \<Rightarrow> None)"
| "int_digits acc (c # d # ds) =
     (if c = CHR ''_'' then
        (case digit_of d of Some v \<Rightarrow> int_digits (10 * acc + v) ds | None \<Rightarrow> None)
      else
        (case digit_of c of Some v \<Rightarrow> int_digits (10 * acc + v) (d # ds) | None \<Rightarrow> None))"

definition int_unsigned :: "string \<Rightarrow> nat option" where
  "int_unsigned s = (case s of [] \<Rightarrow> None
     | c # cs \<Rightarrow> (case digit_of c of Some v \<Rightarrow> int_digits v cs | None \<Rightarrow> None))"

definition py_int :: "string \<Rightarrow> error + int" where
  "py_int s = (case strip s of
       [] \<Rightarrow> Inl ValueError
     | c # cs \<Rightarrow>
        (case (if c = CHR ''-'' then map_option (\<lambda>n. - int n) (int_unsigned cs)
               else if c = CHR ''+'' then map_option int (int_unsigned cs)
               else map_option int (int_unsigned (c # cs))) of
           None \<Rightarrow> Inl ValueError
         | Some i \<Rightarrow> Inr i))"

text \<open>\<open>s.split(sep)\<close> for a one-character separator: every occurrence cuts.\<close>

fun split :: "char \<Rightarrow> string \<Rightarrow> string list" where
  "split sep [] = [[]]"
| "split sep (c # cs) =
     (if c = sep then [] # split sep cs
      else (case split sep cs of p # ps \<Rightarrow> (c # p) # ps | [] \<Rightarrow> [[c]]))"

text \<open>
  \<^verbatim>\<open>h, m = map(int, s.split(":"))\<close>: exactly two parts, each read by \<open>int\<close>; anything else
  is a \<open>ValueError\<close>.
\<close>

definition parse_hm :: "string \<Rightarrow> error + int \<times> int" where
  "parse_hm s = (case split CHR '':'' s of
       [a, b] \<Rightarrow> (case py_int a of Inl e \<Rightarrow> Inl e
          | Inr h \<Rightarrow> (case py_int b of Inl e \<Rightarrow> Inl e | Inr m \<Rightarrow> Inr (h, m)))
     | _ \<Rightarrow> Inl ValueError)"

text \<open>\<open>dt.time(h, m)\<close> raises \<open>ValueError\<close> outside these ranges.\<close>

definition time_ok :: "int \<Rightarrow> int \<Rightarrow> bool" where
  "time_ok h m = (0 \<le> h \<and> h \<le> 23 \<and> 0 \<le> m \<and> m \<le> 59)"

subsection \<open>The slot generator\<close>

text \<open>A number below 100 in two digits.\<close>

definition pad2 :: "nat \<Rightarrow> string" where
  "pad2 n = [''0123456789'' ! ((n div 10) mod 10), ''0123456789'' ! (n mod 10)]"

text \<open>
  Every \<open>datetime\<close> of the slot generator is built on today's date, so it is kept as the number
  of minutes from today's midnight (negative or beyond 1439 on other days);
  \<open>strftime("%H:%M")\<close> prints its time of day. The calendar's own bounds (years 1 to 9999)
  are not modelled: the minutes are unbounded.
\<close>

definition strftime_HM :: "int \<Rightarrow> string" where
  "strftime_HM t = (let tod = nat (t mod 1440) in pad2 (tod div 60) @ '':'' @ pad2 (tod mod 60))"

text \<open>
  \<^verbatim>\<open>while cur <= end_dt:
      slots.append(cur.strftime("%H:%M"))
      cur += dt.timedelta(minutes=block_minutes)\<close>
  With a block of zero minutes the loop never ends, so the loop is a partial function:
  \<open>None\<close> is "does not return". (With a negative block the program's loop ends with an
  \<open>OverflowError\<close> once it leaves the calendar; here, without the calendar's bounds, it
  does not return either.)
\<close>

partial_function (option) slots_loop :: "int \<Rightarrow> int \<Rightarrow> int \<Rightarrow> string list \<Rightarrow> string list option" where
  "slots_loop block_minutes end_dt cur slots =
     (if cur \<le> end_dt
      then slots_loop block_minutes end_dt (cur + block_minutes) (slots @ [strftime_HM cur])
      else Some slots)"

declare slots_loop.simps [code]

definition generate_slots :: "int \<Rightarrow> string \<Rightarrow> string \<Rightarrow> (error + string list) option" where
  "generate_slots block_minutes start end =
     (case parse_hm start of Inl e \<Rightarrow> Some (Inl e)
      | Inr (s_h, s_m) \<Rightarrow>
     (case parse_hm end of Inl e \<Rightarrow> Some (Inl e)
      | Inr (e_h, e_m) \<Rightarrow>
        if \<not> time_ok s_h s_m \<or> \<not> time_ok e_h e_m then Some (Inl ValueError)
        else map_option Inr (slots_loop block_minutes (e_h * 60 + e_m) (s_h * 60 + s_m) [])))"

subsection \<open>Access\<close>

text \<open>
  A value of the settings source (\<open>st.secrets\<close>, a TOML file): a text, an integer or a
  truth value. The other TOML kinds are not modelled.
\<close>

datatype secret = SStr string | SInt int | SBool bool

text \<open>The keys of the settings source that the program reads, each possibly absent.\<close>

record secrets =
  s_app_password :: "secret option"
  s_block_minutes :: "secret option"
  s_workday_start :: "secret option"
  s_workday_end :: "secret option"

definition secret_truthy :: "secret \<Rightarrow> bool" where
  "secret_truthy v = (case v of SStr s \<Rightarrow> s \<noteq> [] | SInt i \<Rightarrow> i \<noteq> 0 | SBool b \<Rightarrow> b)"

text \<open>\<open>st.session_state\<close>: a key that was never set is \<open>None\<close>.\<close>

record session =
  authed :: "bool option"
  user_email :: "string option"

datatype feedback = St_error string | St_success string | St_info string | St_warning string

text \<open>How a run of the script goes on: on to the pages, \<open>st.rerun()\<close>, or \<open>st.stop()\<close>.\<close>

datatype flow = Proceed | Rerun | Stop

text \<open>
  \<^verbatim>\<open>def require_auth():
      if "authed" not in st.session_state:
          st.session_state.authed = False
      if not st.session_state.authed:
          ...
          email = st.text_input(...); pwd = st.text_input("Clave", type="password")
          if st.button("Entrar", ...):
              expected = st.secrets.get("app_password", None)
              if expected and pwd == expected:
                  st.session_state.authed = True
                  st.session_state.user_email = email
                  st.success("Acceso concedido"); st.rerun()
              else:
                  st.error("Clave incorrecta o no configurada.")
          st.stop()\<close>
  The widgets' values (\<open>email\<close>, \<open>pwd\<close>, whether the button was pressed) are arguments.
\<close>

definition require_auth ::
  "secrets \<Rightarrow> session \<Rightarrow> string \<Rightarrow> string \<Rightarrow> bool \<Rightarrow> session \<times> feedback list \<times> flow" where
  "require_auth sec st0 email pwd entrar =
     (let st = (if authed st0 = None then st0\<lparr>authed := Some False\<rparr> else st0) in
      if authed st \<noteq> Some True then
        (if entrar then
           (let expected = s_app_password sec in
            if (case expected of None \<Rightarrow> False | Some e \<Rightarrow> secret_truthy e \<and> SStr pwd = e)
            then (st\<lparr>authed := Some True, user_email := Some email\<rparr>,
                  [St_success ''Acceso concedido''], Rerun)
            else (st, [St_error ''Clave incorrecta o no configurada.''], Stop))
         else (st, [], Stop))
      else (st, [], Proceed))"

subsection \<open>Cells and tables\<close>

text \<open>
  A cell of a \<open>DataFrame\<close>, or a value of a record passed to the persistence adapter:
  the missing value \<open>NaN\<close>, Python's \<open>None\<close>, a text, an integer, or a float. A float is
  kept by its value when that is a whole number (amounts are entered in whole steps);
  fractions and rounding are not modelled.
\<close>

datatype cell = NaN | PyNone | Str string | PyInt int | PyFloat int

function str_digits :: "int \<Rightarrow> string" where
  "str_digits n = (if n < 10 then [''0123456789'' ! nat n]
                   else str_digits (n div 10) @ [''0123456789'' ! nat (n mod 10)])"
  by pat_completeness auto
termination
  by (relation "measure nat") auto

declare str_digits.simps [simp del]

definition str_int :: "int \<Rightarrow> string" where
  "str_int i = (if i < 0 then CHR ''-'' # str_digits (- i) else str_digits i)"

text \<open>
  \<open>str(v)\<close>, and what \<open>astype(str)\<close> makes of a cell. A whole float prints with \<open>.0\<close>
  (below \<open>1e16\<close>, where Python changes to the exponent form, which is not modelled).
\<close>

fun py_str :: "cell \<Rightarrow> string" where
  "py_str NaN = ''nan''"
| "py_str PyNone = ''None''"
| "py_str (Str s) = s"
| "py_str (PyInt i) = str_int i"
| "py_str (PyFloat i) = str_int i @ ''.0''"

text \<open>Truth value of a cell: \<open>nan\<close> is a non-zero float, hence true.\<close>

fun truthy :: "cell \<Rightarrow> bool" where
  "truthy NaN = True"
| "truthy PyNone = False"
| "truthy (Str s) = (s \<noteq> [])"
| "truthy (PyInt i) = (i \<noteq> 0)"
| "truthy (PyFloat i) = (i \<noteq> 0)"

text \<open>
  A table as the adapter holds it between \<open>fetch_table\<close> and \<open>to_csv\<close>: its column names and
  its rows. A row gives a cell for every column of the table; what it gives for other names
  is never read (\<open>row_get\<close>). The text form of the file itself is not modelled.
\<close>

type_synonym row = "string \<Rightarrow> cell"

record frame =
  columns :: "string list"
  rows :: "row list"

text \<open>\<open>df.empty\<close>: no rows or no columns.\<close>

definition df_empty :: "frame \<Rightarrow> bool" where
  "df_empty df = (columns df = [] \<or> rows df = [])"

text \<open>\<open>row.get(c, default)\<close> of a row of \<open>df\<close>: \<open>None\<close> here stands for the default.\<close>

definition row_get :: "frame \<Rightarrow> row \<Rightarrow> string \<Rightarrow> cell option" where
  "row_get df r c = (if c \<in> set (columns df) then Some (r c) else None)"

text \<open>A Python \<open>dict\<close> with text keys, in insertion order; \<open>data[k] = v\<close> is \<open>AList.update\<close>.\<close>

type_synonym pydict = "(string \<times> cell) list"

definition dict_row :: "pydict \<Rightarrow> row" where
  "dict_row d = (\<lambda>c. case map_of d c of Some v \<Rightarrow> v | None \<Rightarrow> NaN)"

text \<open>\<open>pd.DataFrame([data])\<close>.\<close>

definition DataFrame1 :: "pydict \<Rightarrow> frame" where
  "DataFrame1 d = \<lparr>columns = map fst d, rows = [dict_row d]\<rparr>"

text \<open>
  \<open>pd.concat([df, pd.DataFrame([data])], ignore_index=True)\<close>: the columns of both, the old
  rows with \<open>NaN\<close> in the columns that are new, then the new row.
\<close>

definition concat_row :: "frame \<Rightarrow> pydict \<Rightarrow> frame" where
  "concat_row df d =
     \<lparr>columns = columns df @ filter (\<lambda>k. k \<notin> set (columns df)) (map fst d),
      rows = map (\<lambda>r c. if c \<in> set (columns df) then r c else NaN) (rows df) @ [dict_row d]\<rparr>"

text \<open>
  \<open>df.loc[mask, k] = v\<close>: the cell of column \<open>k\<close> in the rows the mask selects; a column that
  is new holds \<open>NaN\<close> in the other rows.
\<close>

definition loc_set :: "bool list \<Rightarrow> string \<Rightarrow> cell \<Rightarrow> frame \<Rightarrow> frame" where
  "loc_set sel k v df =
     \<lparr>columns = (if k \<in> set (columns df) then columns df else columns df @ [k]),
      rows = map (\<lambda>(m, r). if m then r(k := v)
                           else if k \<in> set (columns df) then r else r(k := NaN))
                 (zip sel (rows df))\<rparr>"

text \<open>
  The flat-file backend (no database configured). The clock reading
  \<open>int(dt.datetime.now().timestamp()*1000)\<close> is the argument \<open>now\<close>. With a database the two
  functions hand one SQL statement to the store, whose tables and constraints are not part
  of the program: that path is not modelled.

  \<^verbatim>\<open>df = fetch_table(table)
  if "id" not in data or not data.get("id"):
      data["id"] = str(int(dt.datetime.now().timestamp()*1000))
  df = pd.concat([df, pd.DataFrame([data])], ignore_index=True)
  df.to_csv(csv_path(table), index=False)\<close>
\<close>

definition insert_row :: "int \<Rightarrow> frame \<Rightarrow> pydict \<Rightarrow> frame" where
  "insert_row now df data0 =
     (let data = (if (case map_of data0 ''id'' of None \<Rightarrow> True | Some v \<Rightarrow> \<not> truthy v)
                  then AList.update ''id'' (Str (str_int now)) data0 else data0)
      in concat_row df data)"

text \<open>
  \<^verbatim>\<open>df = fetch_table(table)
  if pk not in data or not str(data.get(pk)).strip():
      data[pk] = str(int(dt.datetime.now().timestamp()*1000))
  if df.empty:
      df = pd.DataFrame([data])
  else:
      mask = df[pk].astype(str) == str(data[pk])
      if mask.any():
          for k,v in data.items():
              df.loc[mask, k] = v
      else:
          df = pd.concat([df, pd.DataFrame([data])], ignore_index=True)
  df.to_csv(csv_path(table), index=False)\<close>
  \<open>df[pk]\<close> raises \<open>KeyError\<close> when the table has no such column.
\<close>

definition pk_blank :: "pydict \<Rightarrow> string \<Rightarrow> bool" where
  "pk_blank data pk = (case map_of data pk of None \<Rightarrow> True | Some v \<Rightarrow> strip (py_str v) = [])"

definition with_key :: "int \<Rightarrow> pydict \<Rightarrow> string \<Rightarrow> pydict" where
  "with_key now data pk =
     (if pk_blank data pk then AList.update pk (Str (str_int now)) data else data)"

definition upsert_row :: "int \<Rightarrow> frame \<Rightarrow> pydict \<Rightarrow> string \<Rightarrow> error + frame" where
  "upsert_row now df data0 pk =
     (let data = with_key now data0 pk in
      if df_empty df then Inr (DataFrame1 data)
      else if pk \<notin> set (columns df) then Inl KeyError
      else
        (let sel = map (\<lambda>r. py_str (r pk) = py_str (dict_row data pk)) (rows df) in
         if list_ex (\<lambda>m. m) sel
         then Inr (fold (\<lambda>(k, v). loc_set sel k v) data df)
         else Inr (concat_row df data)))"

subsection \<open>Example tables\<close>

text \<open>A patients table with one row, whose key is a clock reading read back as a number.\<close>

definition patients0 :: frame where
  "patients0 = \<lparr>columns = [''id'', ''full_name'', ''phone''],
     rows = [(\<lambda>c. NaN)(''id'' := PyInt 1700000000000, ''full_name'' := Str ''Bea'',
                        ''phone'' := Str ''555'')]\<rparr>"

subsection \<open>Booking an appointment\<close>

text \<open>The placeholder of the selection lists, an em dash (three bytes in UTF-8).\<close>

definition dash :: string where
  "dash = [char_of (226 :: nat), char_of (128 :: nat), char_of (148 :: nat)]"

text \<open>
  \<open>df[df[col] == s]\<close> for a text \<open>s\<close>: the rows whose cell of that column is that text;
  \<open>KeyError\<close> without the column. \<open>.iloc[0]\<close> is the first of them, \<open>IndexError\<close> if none.
\<close>

definition select_eq :: "frame \<Rightarrow> string \<Rightarrow> string \<Rightarrow> error + row list" where
  "select_eq df col s =
     (if col \<in> set (columns df) then Inr (filter (\<lambda>r. r col = Str s) (rows df))
      else Inl KeyError)"

definition iloc0 :: "row list \<Rightarrow> error + row" where
  "iloc0 rs = (case rs of [] \<Rightarrow> Inl IndexError | r # _ \<Rightarrow> Inr r)"

text \<open>
  \<open>float(v)\<close> of a cell. What \<open>float\<close> makes of a text is not modelled.
\<close>

fun py_float :: "cell \<Rightarrow> error + cell" where
  "py_float NaN = Inr NaN"
| "py_float PyNone = Inl TypeError"
| "py_float (Str s) = Inl NotModelled"
| "py_float (PyInt i) = Inr (PyFloat i)"
| "py_float (PyFloat i) = Inr (PyFloat i)"

text \<open>
  \<open>strftime("%H:%M:%S")\<close> of a time that is a whole number of minutes from midnight.
\<close>

definition strftime_HMS :: "int \<Rightarrow> string" where
  "strftime_HMS t = strftime_HM t @ '':00''"

text \<open>
  \<^verbatim>\<open>same_day = apps[(apps.get("professional_id","").astype(str)==str(prid))
                  & (apps.get("date","")==str(day))]\<close>
  Without the column \<open>professional_id\<close> the default \<open>""\<close> has no \<open>astype\<close>
  (\<open>AttributeError\<close>); without the column \<open>date\<close> the comparison of the default with the
  day is false, and no row is selected.
\<close>

definition same_day :: "frame \<Rightarrow> cell \<Rightarrow> string \<Rightarrow> error + row list" where
  "same_day apps prid day =
     (if ''professional_id'' \<notin> set (columns apps) then Inl AttributeError
      else Inr (filter (\<lambda>r. py_str (r ''professional_id'') = py_str prid
                           \<and> ''date'' \<in> set (columns apps) \<and> r ''date'' = Str day)
                       (rows apps)))"

text \<open>
  \<^verbatim>\<open>s2 = str(row.get("start_time",""))
  e2 = str(row.get("end_time",""))\<close>
\<close>

definition start_text :: "frame \<Rightarrow> row \<Rightarrow> string" where
  "start_text apps r = (case row_get apps r ''start_time'' of None \<Rightarrow> [] | Some c \<Rightarrow> py_str c)"

definition end_text :: "frame \<Rightarrow> row \<Rightarrow> string" where
  "end_text apps r = (case row_get apps r ''end_time'' of None \<Rightarrow> [] | Some c \<Rightarrow> py_str c)"

text \<open>
  \<^verbatim>\<open>conflict = False
  for _, row in same_day.iterrows():
      s2 = ...; e2 = ...
      if not s2 or not e2:
          continue
      if overlaps(start_t, end_t, s2, e2):
          conflict = True
          break\<close>
\<close>

fun conflict_scan :: "frame \<Rightarrow> string \<Rightarrow> string \<Rightarrow> row list \<Rightarrow> bool" where
  "conflict_scan apps start_t end_t [] = False"
| "conflict_scan apps start_t end_t (r # rs) =
     (if start_text apps r = [] \<or> end_text apps r = [] then conflict_scan apps start_t end_t rs
      else if overlaps start_t end_t (start_text apps r) (end_text apps r) then True
      else conflict_scan apps start_t end_t rs)"

text \<open>
  What the page did: the message it showed, and the appointments table it wrote, if it
  wrote one.
\<close>

type_synonym outcome = "feedback \<times> frame option"

text \<open>
  Lines 293 to 320 of \<open>page_agenda\<close>: the overlap check for the same professional and day,
  then the insertion (\<open>insert_row\<close> reads the table again; within one run of the page it is
  the table the page has read). \<open>sid\<close> is \<open>sr["id"]\<close>, which is looked up only when the row is built
  (\<open>KeyError\<close> without the column); \<open>created\<close> is the text of \<open>utcnow()\<close>.
\<close>

definition new_appointment ::
  "cell \<Rightarrow> cell \<Rightarrow> cell \<Rightarrow> string \<Rightarrow> string \<Rightarrow> string \<Rightarrow> string \<Rightarrow> cell \<Rightarrow> string \<Rightarrow> pydict" where
  "new_appointment pid prid sid day start_t end_t notes price created =
     [(''patient_id'', pid), (''professional_id'', prid), (''service_id'', sid),
      (''date'', Str day), (''start_time'', Str start_t), (''end_time'', Str end_t),
      (''status'', Str ''programada''), (''notes'', if notes = [] then PyNone else Str notes),
      (''price'', price), (''created_at'', Str created)]"

definition check_and_insert ::
  "int \<Rightarrow> string \<Rightarrow> frame \<Rightarrow> cell \<Rightarrow> cell \<Rightarrow> error + cell \<Rightarrow> string \<Rightarrow> string \<Rightarrow> string
     \<Rightarrow> string \<Rightarrow> cell \<Rightarrow> error + outcome" where
  "check_and_insert now created apps pid prid sid day start_t end_t notes price =
     (case same_day apps prid day of Inl e \<Rightarrow> Inl e
      | Inr rs \<Rightarrow>
        if conflict_scan apps start_t end_t rs
        then Inr (St_error ''Conflicto de horario con otra cita del mismo profesional.'', None)
        else (case sid of Inl e \<Rightarrow> Inl e
          | Inr sid' \<Rightarrow>
              Inr (St_success ''Cita creada.'',
                   Some (insert_row now apps
                     (new_appointment pid prid sid' day start_t end_t notes price created)))))"

text \<open>The values of the booking form's widgets.\<close>

record cita_form =
  psel :: string
  prosel :: string
  ssel :: string
  slot :: string
  dur :: int
  notas :: string

text \<open>
  The branch of \<open>page_agenda\<close> under the button "Crear cita" (lines 279 to 320); \<open>day\<close> is
  the text \<open>str(day)\<close> of the chosen date.
  \<^verbatim>\<open>if "-" in (psel, prosel, ssel):
      st.error("Completa paciente, profesional y servicio.")
  else:
      pid = pats[pats["full_name"] == psel]["id"].iloc[0]
      prid = pros[pros["full_name"] == prosel]["id"].iloc[0]
      sr = srvs[srvs["name"] == ssel].iloc[0]
      price = float(sr.get("price", 0))
      start_t = slot + ":00"
      hh, mm = map(int, slot.split(":"))
      end_dt = dt.datetime.combine(day, dt.time(hh, mm)) + dt.timedelta(minutes=int(dur))
      end_t = end_dt.strftime("%H:%M:%S")
      ...\<close>
  (the placeholder in the first line is the em dash).
\<close>

definition first_id :: "frame \<Rightarrow> string \<Rightarrow> string \<Rightarrow> error + cell" where
  "first_id df col s =
     (case select_eq df col s of Inl e \<Rightarrow> Inl e
      | Inr rs \<Rightarrow> if ''id'' \<notin> set (columns df) then Inl KeyError
                 else (case iloc0 rs of Inl e \<Rightarrow> Inl e | Inr r \<Rightarrow> Inr (r ''id'')))"

definition page_agenda_crear_cita ::
  "int \<Rightarrow> string \<Rightarrow> string \<Rightarrow> frame \<Rightarrow> frame \<Rightarrow> frame \<Rightarrow> frame \<Rightarrow> cita_form \<Rightarrow> error + outcome" where
  "page_agenda_crear_cita now created day pats pros srvs apps f =
     (if dash \<in> {psel f, prosel f, ssel f}
      then Inr (St_error ''Completa paciente, profesional y servicio.'', None)
      else
       (case first_id pats ''full_name'' (psel f) of Inl e \<Rightarrow> Inl e | Inr pid \<Rightarrow>
       (case first_id pros ''full_name'' (prosel f) of Inl e \<Rightarrow> Inl e | Inr prid \<Rightarrow>
       (case select_eq srvs ''name'' (ssel f) of Inl e \<Rightarrow> Inl e | Inr ss \<Rightarrow>
       (case iloc0 ss of Inl e \<Rightarrow> Inl e | Inr sr \<Rightarrow>
       (case py_float (case row_get srvs sr ''price'' of None \<Rightarrow> PyInt 0 | Some c \<Rightarrow> c) of
          Inl e \<Rightarrow> Inl e | Inr price \<Rightarrow>
       (case parse_hm (slot f) of Inl e \<Rightarrow> Inl e | Inr (hh, mm) \<Rightarrow>
          if \<not> time_ok hh mm then Inl ValueError
          else check_and_insert now created apps pid prid
                 (case row_get srvs sr ''id'' of None \<Rightarrow> Inl KeyError | Some c \<Rightarrow> Inr c)
                 day (slot f @ '':00'') (strftime_HMS (hh * 60 + mm + dur f)) (notas f) price)))))))"


subsection \<open>More example tables\<close>

definition pats1 :: frame where
  "pats1 = \<lparr>columns = [''id'', ''full_name''],
     rows = [(\<lambda>c. NaN)(''id'' := PyInt 11, ''full_name'' := Str ''Paula Soto'')]\<rparr>"

definition pros1 :: frame where
  "pros1 = \<lparr>columns = [''id'', ''full_name''],
     rows = [(\<lambda>c. NaN)(''id'' := PyInt 21, ''full_name'' := Str ''Ana Rojas'')]\<rparr>"

definition srvs1 :: frame where
  "srvs1 = \<lparr>columns = [''id'', ''name'', ''duration_minutes'', ''price''],
     rows = [(\<lambda>c. NaN)(''id'' := PyInt 31, ''name'' := Str ''Terapia 30min'',
                        ''duration_minutes'' := PyInt 30, ''price'' := PyFloat 30000)]\<rparr>"

definition app_cols :: "string list" where
  "app_cols = [''id'', ''patient_id'', ''professional_id'', ''service_id'', ''date'',
     ''start_time'', ''end_time'', ''status'', ''notes'', ''price'', ''created_at'']"


text \<open>The same appointment with its \<open>end_time\<close> cell missing, as an empty field of the file is read.\<close>

definition apps_no_end :: frame where
  "apps_no_end = \<lparr>columns = app_cols,
     rows = [(\<lambda>c. NaN)(''id'' := PyInt 1700000000000, ''patient_id'' := PyInt 11,
        ''professional_id'' := PyInt 21, ''service_id'' := PyInt 31, ''date'' := Str ''2024-05-06'',
        ''start_time'' := Str ''09:00:00'',
        ''status'' := Str ''programada'', ''price'' := PyFloat 30000,
        ''created_at'' := Str ''2024-05-01T12:00:00'')]\<rparr>"

text \<open>The same appointment with an empty text for its \<open>end_time\<close>.\<close>

definition apps_empty_end :: frame where
  "apps_empty_end = \<lparr>columns = app_cols,
     rows = [(\<lambda>c. NaN)(''id'' := PyInt 1700000000000, ''patient_id'' := PyInt 11,
        ''professional_id'' := PyInt 21, ''service_id'' := PyInt 31, ''date'' := Str ''2024-05-06'',
        ''start_time'' := Str ''09:00:00'', ''end_time'' := Str [],
        ''status'' := Str ''programada'', ''price'' := PyFloat 30000,
        ''created_at'' := Str ''2024-05-01T12:00:00'')]\<rparr>"

definition form1 :: "string \<Rightarrow> int \<Rightarrow> cita_form" where
  "form1 s d = \<lparr>psel = ''Paula Soto'', prosel = ''Ana Rojas'', ssel = ''Terapia 30min'',
     slot = s, dur = d, notas = ''''\<rparr>"

subsection \<open>Reports\<close>

definition is_number :: "cell \<Rightarrow> bool" where
  "is_number c = (case c of PyInt i \<Rightarrow> True | PyFloat i \<Rightarrow> True | _ \<Rightarrow> False)"

definition is_null :: "cell \<Rightarrow> bool" where
  "is_null c = (c = NaN \<or> c = PyNone)"

text \<open>
  \<^verbatim>\<open>scope = df[(df["date"]>=str(d1)) & (df["date"]<=str(d2))]\<close>
  \<open>d1\<close> and \<open>d2\<close> are the texts of the two dates. Texts are compared as texts and a missing
  cell compares false. A column read from the file without any text in it is a column of
  numbers (\<open>NaN\<close> is one), and ordering a number against a text raises \<open>TypeError\<close>.
\<close>

definition in_range :: "string \<Rightarrow> string \<Rightarrow> row \<Rightarrow> bool" where
  "in_range d1 d2 r = (case r ''date'' of Str s \<Rightarrow> d1 \<le> s \<and> s \<le> d2 | _ \<Rightarrow> False)"

definition date_scope :: "frame \<Rightarrow> string \<Rightarrow> string \<Rightarrow> error + row list" where
  "date_scope df d1 d2 =
     (if ''date'' \<notin> set (columns df) then Inl KeyError
      else if list_ex (\<lambda>r. is_number (r ''date'')) (rows df)
            \<or> (rows df \<noteq> [] \<and> list_all (\<lambda>r. r ''date'' = NaN) (rows df)) then Inl TypeError
      else Inr (filter (in_range d1 d2) (rows df)))"

text \<open>
  \<open>scope.merge(pros, on="professional_id", how="left")\<close>, where \<open>pros\<close> is the professionals
  table cut to \<open>id\<close> and \<open>full_name\<close>, renamed \<open>professional_id\<close> and \<open>Profesional\<close>: every
  row of the scope once for each professional with an equal key, or once with a missing
  name when there is none. A whole float equals the integer, and missing keys match each
  other. (pandas refuses to merge some pairs of column types at all; the model compares
  cell by cell.)
\<close>

definition merge_key :: "cell \<Rightarrow> cell" where
  "merge_key c = (case c of PyFloat i \<Rightarrow> PyInt i | PyNone \<Rightarrow> NaN | _ \<Rightarrow> c)"

definition merge_pros :: "frame \<Rightarrow> row list \<Rightarrow> row list" where
  "merge_pros pros scope =
     concat (map (\<lambda>r.
        (case filter (\<lambda>p. merge_key (p ''id'') = merge_key (r ''professional_id'')) (rows pros) of
           [] \<Rightarrow> [r(''Profesional'' := NaN)]
         | ps \<Rightarrow> map (\<lambda>p. r(''Profesional'' := p ''full_name'')) ps)) scope)"

text \<open>
  \<open>.str.contains(pro, case=False, na=False)\<close> searches with \<open>pro\<close> as a regular expression.
  A pattern of ASCII characters none of which is special in a regular expression stands for
  itself: the search is for the pattern inside the text, letters compared without case.
  Other patterns are not modelled, nor are the four letters outside ASCII that Python
  also takes for \<open>i\<close>, \<open>s\<close> and \<open>k\<close>.
\<close>

definition literal_pattern :: "string \<Rightarrow> bool" where
  "literal_pattern p = list_all (\<lambda>c. (of_char c :: nat) < 128
      \<and> (of_char c :: nat) \<notin> {46, 94, 36, 42, 43, 63, 123, 125, 91, 93, 92, 124, 40, 41}) p"

definition lower :: "char \<Rightarrow> char" where
  "lower c = (let n = of_char c :: nat in if 65 \<le> n \<and> n \<le> 90 then char_of (n + 32) else c)"

definition contains_ci :: "string \<Rightarrow> string \<Rightarrow> bool" where
  "contains_ci p t =
     list_ex (\<lambda>i. take (length p) (drop i (map lower t)) = map lower p) [0 ..< Suc (length t)]"

definition name_filter :: "string \<Rightarrow> row list \<Rightarrow> error + row list" where
  "name_filter pro rs =
     (if \<not> literal_pattern pro \<or> list_ex (\<lambda>r. is_number (r ''Profesional'')) rs
      then Inl NotModelled
      else Inr (filter (\<lambda>r. case r ''Profesional'' of Str n \<Rightarrow> contains_ci pro n | _ \<Rightarrow> False) rs))"

text \<open>The five figures of the first row of the report.\<close>

record kpis =
  total_citas :: nat
  atendidas :: nat
  canceladas :: nat
  ausentes :: nat
  ingresos :: int

text \<open>
  \<^verbatim>\<open>total_citas = len(scope)
  atendidas = (scope["status"]=="atendida").sum()
  canceladas = (scope["status"]=="cancelada").sum()
  ausentes = (scope["status"]=="ausente").sum()
  ingresos = float(scope.get("price", 0).fillna(0).sum())\<close>
  Without a \<open>price\<close> column the default \<open>0\<close> has no \<open>fillna\<close>. The sum is exact here (whole
  amounts); a text among the prices is not modelled.
\<close>

definition price_value :: "cell \<Rightarrow> int" where
  "price_value c = (case c of PyInt i \<Rightarrow> i | PyFloat i \<Rightarrow> i | _ \<Rightarrow> 0)"

definition count_status :: "string \<Rightarrow> row list \<Rightarrow> nat" where
  "count_status s scope = length (filter (\<lambda>r. r ''status'' = Str s) scope)"

definition kpi_block :: "string list \<Rightarrow> row list \<Rightarrow> error + kpis" where
  "kpi_block cols scope =
     (if ''status'' \<notin> set cols then Inl KeyError
      else if ''price'' \<notin> set cols then Inl AttributeError
      else if list_ex (\<lambda>r. case r ''price'' of Str s \<Rightarrow> True | _ \<Rightarrow> False) scope then Inl NotModelled
      else Inr \<lparr>total_citas = length scope,
                atendidas = count_status ''atendida'' scope,
                canceladas = count_status ''cancelada'' scope,
                ausentes = count_status ''ausente'' scope,
                ingresos = sum_list (map (\<lambda>r. price_value (r ''price'')) scope)\<rparr>)"

text \<open>
  \<open>pd.to_datetime(scope["date"])\<close>, for the first chart, reads every date of the scope. It
  does read a text of the form \<open>YYYY-MM-DD\<close> that names a day of the calendar within the
  years a timestamp can hold; what it does with any other text is not modelled.
\<close>

definition all_digits :: "string \<Rightarrow> bool" where
  "all_digits s = list_all (\<lambda>c. digit_of c \<noteq> None) s"

definition digits_value :: "string \<Rightarrow> nat" where
  "digits_value s = foldl (\<lambda>a c. 10 * a + (of_char c - 48)) 0 s"

definition days_in_month :: "nat \<Rightarrow> nat \<Rightarrow> nat" where
  "days_in_month y m =
     (if m = 2 then (if y mod 4 = 0 \<and> (y mod 100 \<noteq> 0 \<or> y mod 400 = 0) then 29 else 28)
      else if m \<in> {4, 6, 9, 11} then 30 else 31)"

definition plain_date :: "string \<Rightarrow> bool" where
  "plain_date s =
     (length s = 10 \<and> s ! 4 = CHR ''-'' \<and> s ! 7 = CHR ''-''
      \<and> all_digits (take 4 s) \<and> all_digits (take 2 (drop 5 s)) \<and> all_digits (drop 8 s)
      \<and> (let y = digits_value (take 4 s); m = digits_value (take 2 (drop 5 s));
              d = digits_value (drop 8 s)
          in 1678 \<le> y \<and> y \<le> 2261 \<and> 1 \<le> m \<and> m \<le> 12 \<and> 1 \<le> d \<and> d \<le> days_in_month y m))"

definition dates_readable :: "row list \<Rightarrow> bool" where
  "dates_readable scope = list_all (\<lambda>r. case r ''date'' of Str s \<Rightarrow> plain_date s | _ \<Rightarrow> False) scope"

text \<open>
  \<open>int(v)\<close> of a value of the settings source, and the workday settings.
  \<^verbatim>\<open>block_minutes = int(st.secrets.get("block_minutes", 30))
  start_day = st.secrets.get("workday_start", "09:00")
  end_day = st.secrets.get("workday_end", "18:30")
  s_h, s_m = map(int, start_day.split(":"))
  e_h, e_m = map(int, end_day.split(":"))\<close>
  A setting that is not a text has no \<open>split\<close>.
\<close>

definition secret_int :: "secret \<Rightarrow> error + int" where
  "secret_int v = (case v of SInt i \<Rightarrow> Inr i | SBool b \<Rightarrow> Inr (if b then 1 else 0)
     | SStr s \<Rightarrow> py_int s)"

definition block_setting :: "secrets \<Rightarrow> error + int" where
  "block_setting sec = (case s_block_minutes sec of None \<Rightarrow> Inr 30 | Some v \<Rightarrow> secret_int v)"

definition hm_setting :: "secret option \<Rightarrow> string \<Rightarrow> error + int \<times> int" where
  "hm_setting v dflt = (case v of None \<Rightarrow> parse_hm dflt | Some (SStr s) \<Rightarrow> parse_hm s
     | Some _ \<Rightarrow> Inl AttributeError)"

text \<open>\<open>Series.nunique()\<close>: the number of different values, missing ones left out.\<close>

definition nunique :: "cell list \<Rightarrow> nat" where
  "nunique cs = length (remdups (map merge_key (filter (\<lambda>c. \<not> is_null c) cs)))"

text \<open>
  The occupancy line (lines 410 to 422); the quotient is exact here.
  \<^verbatim>\<open>jornada_min = (e_h*60+e_m) - (s_h*60+s_m) + block_minutes
  slots_por_dia = max(1, jornada_min // block_minutes)
  pros_in_scope = scope["professional_id"].nunique()
  dias_distintos = scope["date"].nunique()
  total_slots_disp = pros_in_scope * dias_distintos * slots_por_dia
  ocup = (len(scope) / total_slots_disp)*100 if total_slots_disp>0 else 0\<close>
\<close>

record ocupacion =
  slots_por_dia :: int
  pros_in_scope :: nat
  dias_distintos :: nat
  total_slots_disp :: int
  ocup :: rat

definition occupancy :: "secrets \<Rightarrow> string list \<Rightarrow> row list \<Rightarrow> error + ocupacion" where
  "occupancy sec cols scope =
     (case block_setting sec of Inl e \<Rightarrow> Inl e | Inr block \<Rightarrow>
     (case hm_setting (s_workday_start sec) ''09:00'' of Inl e \<Rightarrow> Inl e | Inr (s_h, s_m) \<Rightarrow>
     (case hm_setting (s_workday_end sec) ''18:30'' of Inl e \<Rightarrow> Inl e | Inr (e_h, e_m) \<Rightarrow>
        if block = 0 then Inl ZeroDivisionError
        else if ''professional_id'' \<notin> set cols then Inl KeyError
        else if ''date'' \<notin> set cols then Inl KeyError
        else
          (let jornada_min = (e_h * 60 + e_m) - (s_h * 60 + s_m) + block;
               spd = max 1 (jornada_min div block);
               p = nunique (map (\<lambda>r. r ''professional_id'') scope);
               d = nunique (map (\<lambda>r. r ''date'') scope);
               total = int p * int d * spd
           in Inr \<lparr>slots_por_dia = spd, pros_in_scope = p, dias_distintos = d,
                   total_slots_disp = total,
                   ocup = (if total > 0 then of_nat (length scope) / of_int total * 100 else 0)\<rparr>))))"

text \<open>
  What \<open>page_reportes\<close> shows: a notice and nothing else; or the five figures and then the
  occupancy line, unless an exception ends the run between the two (the figures are on the
  page by then). The charts are not modelled.
\<close>

datatype report = Shown_info string | Shown_warning string | Shown_kpis kpis "error + ocupacion"

text \<open>
  The notice of \<open>st.info\<close> on an empty table, "Aun no hay datos de citas para reportar."
  with an accent on the \<open>u\<close> (two bytes in UTF-8).
\<close>

definition msg_no_data :: string where
  "msg_no_data = ''A'' @ [char_of (195 :: nat), char_of (186 :: nat)]
     @ ''n no hay datos de citas para reportar.''"

text \<open>
  \<^verbatim>\<open>df = fetch_table("appointments")
  pros = fetch_table("professionals")[["id","full_name"]].rename(...)
  if df.empty: st.info(...); return
  ...
  scope = df[(df["date"]>=str(d1)) & (df["date"]<=str(d2))].copy()
  if pro.strip():
      scope = scope.merge(pros, on="professional_id", how="left")
      scope = scope[scope["Profesional"].str.contains(pro, case=False, na=False)]
  if scope.empty: st.warning(...); return\<close>
  After the merge, a column \<open>Profesional\<close> that the appointments had already goes by
  another name, and \<open>scope["Profesional"]\<close> raises \<open>KeyError\<close>.
\<close>

definition report_scope :: "frame \<Rightarrow> frame \<Rightarrow> string \<Rightarrow> string \<Rightarrow> string \<Rightarrow> error + row list" where
  "report_scope df pros d1 d2 pro =
     (case date_scope df d1 d2 of Inl e \<Rightarrow> Inl e
      | Inr scope \<Rightarrow>
          if strip pro = [] then Inr scope
          else if ''professional_id'' \<notin> set (columns df) \<or> ''Profesional'' \<in> set (columns df)
          then Inl KeyError
          else name_filter pro (merge_pros pros scope))"

definition page_reportes ::
  "secrets \<Rightarrow> frame \<Rightarrow> frame \<Rightarrow> string \<Rightarrow> string \<Rightarrow> string \<Rightarrow> error + report" where
  "page_reportes sec df pros d1 d2 pro =
     (if ''id'' \<notin> set (columns pros) \<or> ''full_name'' \<notin> set (columns pros) then Inl KeyError
      else if df_empty df then Inr (Shown_info msg_no_data)
      else
       (case report_scope df pros d1 d2 pro of Inl e \<Rightarrow> Inl e
        | Inr scope \<Rightarrow>
            if scope = [] then Inr (Shown_warning ''Sin datos en el rango seleccionado.'')
            else
             (case kpi_block (columns df) scope of Inl e \<Rightarrow> Inl e
              | Inr k \<Rightarrow>
                  Inr (Shown_kpis k
                    (if dates_readable scope then occupancy sec (columns df) scope
                     else Inl NotModelled)))))"

subsection \<open>Example tables for the reports\<close>

definition pros2 :: frame where
  "pros2 = \<lparr>columns = [''id'', ''full_name''],
     rows = [(\<lambda>c. NaN)(''id'' := PyInt 21, ''full_name'' := Str ''Ana Rojas''),
             (\<lambda>c. NaN)(''id'' := PyInt 22, ''full_name'' := Str ''Bea Mora'')]\<rparr>"

definition appointment :: "int \<Rightarrow> cell \<Rightarrow> string \<Rightarrow> string \<Rightarrow> string \<Rightarrow> string \<Rightarrow> cell \<Rightarrow> row" where
  "appointment n prid day start_t end_t status price =
     (\<lambda>c. NaN)(''id'' := PyInt n, ''patient_id'' := PyInt 11, ''professional_id'' := prid,
       ''service_id'' := PyInt 31, ''date'' := Str day, ''start_time'' := Str start_t,
       ''end_time'' := Str end_t, ''status'' := Str status, ''price'' := price,
       ''created_at'' := Str ''2024-05-01T12:00:00'')"

text \<open>Three appointments in May 2024, of two professionals, the last one without a price.\<close>

definition apps3 :: frame where
  "apps3 = \<lparr>columns = app_cols,
     rows = [appointment 1700000000001 (PyInt 21) ''2024-05-06'' ''09:00:00'' ''09:30:00''
               ''atendida'' (PyFloat 30000),
             appointment 1700000000002 (PyInt 22) ''2024-05-06'' ''09:00:00'' ''09:30:00''
               ''programada'' (PyFloat 20000),
             appointment 1700000000003 (PyInt 21) ''2024-05-20'' ''10:00:00'' ''10:30:00''
               ''cancelada'' NaN]\<rparr>"

text \<open>One appointment whose professional is missing.\<close>

definition apps_no_pro :: frame where
  "apps_no_pro = \<lparr>columns = app_cols,
     rows = [appointment 1700000000001 NaN ''2024-05-06'' ''09:00:00'' ''09:30:00''
               ''programada'' (PyFloat 30000)]\<rparr>"

definition no_secrets :: secrets where
  "no_secrets = \<lparr>s_app_password = None, s_block_minutes = None, s_workday_start = None,
     s_workday_end = None\<rparr>"

subsection \<open>Dates as texts\<close>





section \<open>Overlap of two intervals\<close>

text \<open>
  C1. For all times \<open>a1\<close>, \<open>a2\<close>, \<open>b1\<close>, \<open>b2\<close> given as texts, \<open>overlaps a1 a2 b1 b2\<close> is
  true exactly when \<open>a1 < b2\<close> and \<open>b1 < a2\<close>; and an interval that starts where the other
  one ends (\<open>b1 = a2\<close>) does not overlap it.
\<close>

theorem overlaps_iff:
  "overlaps a1 a2 b1 b2 = (a1 < b2 \<and> b1 < a2) \<and> overlaps a1 a2 a2 b2 = False"
  by (auto simp: overlaps_def)

theorem overlaps_iff_witness:
  "overlaps ''09:00:00'' ''09:30:00'' ''09:15:00'' ''10:00:00''
   \<and> \<not> overlaps ''09:00:00'' ''09:30:00'' ''09:30:00'' ''10:00:00''"
  using overlaps_iff [of "''09:00:00''" "''09:30:00''" "''09:15:00''" "''10:00:00''"]
    overlaps_iff [of "''09:00:00''" "''09:30:00''" "''09:30:00''" "''10:00:00''"]
  by simp

section \<open>Numbers in digits\<close>







section \<open>The slots of a day\<close>







text \<open>
  C8. With start \<open>09:00\<close>, end \<open>10:00\<close> and a block of 30 minutes the generator returns
  exactly \<open>09:00\<close>, \<open>09:30\<close>, \<open>10:00\<close>.
\<close>

theorem generate_slots_example:
  "generate_slots 30 ''09:00'' ''10:00'' = Some (Inr [''09:00'', ''09:30'', ''10:00''])"
  by code_simp

theorem generate_slots_example_witness:
  "generate_slots 30 ''09:00'' ''10:00'' \<noteq> None
   \<and> (case generate_slots 30 ''09:00'' ''10:00'' of
        Some (Inr slots) \<Rightarrow> length slots = 3 \<and> slots ! 1 = ''09:30'' | _ \<Rightarrow> False)"
  using generate_slots_example by simp

section \<open>Access without a passphrase\<close>

text \<open>
  C9. When the settings source holds no \<open>app_password\<close>, a session that is not
  authenticated stays so whatever is typed and whether or not the button is pressed: the
  run stops at the login form, \<open>authed\<close> is false afterwards, and no success message is
  shown.
\<close>

theorem require_auth_unconfigured:
  assumes "s_app_password sec = None" and "authed st \<noteq> Some True"
  shows "authed (fst (require_auth sec st email pwd entrar)) = Some False
    \<and> snd (snd (require_auth sec st email pwd entrar)) = Stop
    \<and> fst (snd (require_auth sec st email pwd entrar)) =
        (if entrar then [St_error ''Clave incorrecta o no configurada.''] else [])"
  using assms by (cases "authed st") (auto simp: require_auth_def Let_def)

theorem require_auth_unconfigured_witness:
  "require_auth \<lparr>s_app_password = None, s_block_minutes = None, s_workday_start = None,
       s_workday_end = None\<rparr> \<lparr>authed = None, user_email = None\<rparr> ''ana@cian.cl'' ''secreto'' True
   = (\<lparr>authed = Some False, user_email = None\<rparr>,
      [St_error ''Clave incorrecta o no configurada.''], Stop)"
  using require_auth_unconfigured [of "\<lparr>s_app_password = None, s_block_minutes = None,
       s_workday_start = None, s_workday_end = None\<rparr>" "\<lparr>authed = None, user_email = None\<rparr>"
       "''ana@cian.cl''" "''secreto''" True]
  by (simp add: require_auth_def)

section \<open>The flat-file persistence adapter\<close>











lemma concat_row_columns: "set (columns (concat_row df d)) = set (columns df) \<union> fst ` set d"
  by (auto simp: concat_row_def)



lemma with_key_keys:
  "fst ` set (with_key now data pk) = (if pk_blank data pk then insert pk (fst ` set data) else fst ` set data)"
  by (auto simp: with_key_def dom_update)









text \<open>
  A key that is there but is \<open>None\<close> is not taken for a missing one by \<open>upsert_row\<close>: its
  text is \<open>None\<close>, not blank, so the record is stored with the key \<open>None\<close>. \<open>insert_row\<close>
  tests the value itself and makes a key.
\<close>

lemma upsert_row_none_key:
  "\<not> pk_blank [(''id'', PyNone), (''full_name'', Str ''Ana'')] ''id''
   \<and> (case upsert_row 1700000000001 patients0 [(''id'', PyNone), (''full_name'', Str ''Ana'')] ''id'' of
        Inl e \<Rightarrow> False
      | Inr df' \<Rightarrow> length (rows df') = 2 \<and> (rows df' ! 1) ''id'' = PyNone)
   \<and> (rows (insert_row 1700000000001 patients0 [(''id'', PyNone), (''full_name'', Str ''Ana'')]) ! 1)
        ''id'' = Str ''1700000000001''"
  by code_simp

section \<open>Booking validation\<close>

lemma conflict_scan_iff:
  "conflict_scan apps start_t end_t rs \<longleftrightarrow>
     (\<exists>r\<in>set rs. start_text apps r \<noteq> [] \<and> end_text apps r \<noteq> []
        \<and> overlaps start_t end_t (start_text apps r) (end_text apps r))"
  by (induction rs) auto



lemma insert_row_columns: "set (columns df) \<subseteq> set (columns (insert_row now df data))"
  by (simp add: insert_row_def Let_def concat_row_columns)


text \<open>
  The button branch of the page, once the selections are found and the slot is read, is
  the check and the insertion on the values found.
\<close>

lemma page_agenda_crear_cita_resolved:
  assumes "dash \<notin> {psel f, prosel f, ssel f}"
    and "first_id pats ''full_name'' (psel f) = Inr pid"
    and "first_id pros ''full_name'' (prosel f) = Inr prid"
    and "select_eq srvs ''name'' (ssel f) = Inr ss" and "iloc0 ss = Inr sr"
    and "py_float (case row_get srvs sr ''price'' of None \<Rightarrow> PyInt 0 | Some c \<Rightarrow> c) = Inr price"
    and "parse_hm (slot f) = Inr (hh, mm)" and "time_ok hh mm"
  shows "page_agenda_crear_cita now created day pats pros srvs apps f =
     check_and_insert now created apps pid prid
       (case row_get srvs sr ''id'' of None \<Rightarrow> Inl KeyError | Some c \<Rightarrow> Inr c)
       day (slot f @ '':00'') (strftime_HMS (hh * 60 + mm + dur f)) (notas f) price"
  using assms by (simp add: page_agenda_crear_cita_def)



lemma conflict_scan_skips:
  assumes "start_text apps r = [] \<or> end_text apps r = []"
  shows "conflict_scan apps start_t end_t (rs @ r # rs') = conflict_scan apps start_t end_t (rs @ rs')"
  using assms by (auto simp: conflict_scan_iff)

text \<open>
  C10, at a table whose one appointment (professional 21, 2024-05-06, from 09:00) has no
  \<open>end_time\<close>: the cell is \<open>NaN\<close>, its text is \<open>nan\<close>, which is not empty, so the scan does
  not skip the row; it compares, and a candidate from 10:00 to 10:30 of the same
  professional and day is rejected as a conflict.
\<close>

theorem missing_end_time_rejects:
  "(rows apps_no_end ! 0) ''end_time'' = NaN
   \<and> start_text apps_no_end (rows apps_no_end ! 0) = ''09:00:00''
   \<and> end_text apps_no_end (rows apps_no_end ! 0) = ''nan''
   \<and> overlaps ''10:00:00'' ''10:30:00'' ''09:00:00'' ''nan''
   \<and> (case page_agenda_crear_cita 1700000000500 ''2024-05-02T10:00:00'' ''2024-05-06''
             pats1 pros1 srvs1 apps_no_end (form1 ''10:00'' 30) of
        Inr (St_error m, None) \<Rightarrow>
          m = ''Conflicto de horario con otra cita del mismo profesional.''
      | _ \<Rightarrow> False)"
  by code_simp

text \<open>
  Where the cell holds an empty text the row is skipped, and the same booking is
  accepted.
\<close>

lemma empty_end_time_skipped:
  "end_text apps_empty_end (rows apps_empty_end ! 0) = []
   \<and> (case page_agenda_crear_cita 1700000000500 ''2024-05-02T10:00:00'' ''2024-05-06''
             pats1 pros1 srvs1 apps_empty_end (form1 ''10:00'' 30) of
        Inr (St_success m, Some df') \<Rightarrow> length (rows df') = 2
      | _ \<Rightarrow> False)"
  by code_simp

section \<open>The price of an appointment\<close>

lemma status_record_keys:
  "fst ` set (with_key now [(''id'', Str cid), (''status'', Str s)] ''id'') = {''id'', ''status''}"
  by (auto simp: with_key_keys)







section \<open>Dates as texts keep the order of the calendar\<close>





section \<open>Reports\<close>







lemma nunique_card:
  "nunique cs = card (merge_key ` {c \<in> set cs. \<not> is_null c})"
  by (simp add: nunique_def length_remdups_card_conv)

lemma nunique_pos: "0 < nunique (map f xs) \<longleftrightarrow> (\<exists>x\<in>set xs. \<not> is_null (f x))"
proof -
  have "nunique (map f xs) = 0 \<longleftrightarrow> filter (\<lambda>c. \<not> is_null c) (map f xs) = []"
    by (simp add: nunique_def)
  also have "\<dots> \<longleftrightarrow> \<not> (\<exists>x\<in>set xs. \<not> is_null (f x))"
    by (simp add: filter_empty_conv)
  finally show ?thesis by (cases "nunique (map f xs)") simp_all
qed

text \<open>
  C6. For a scope that is not empty and whose dates are present, with a block size other
  than zero and workday settings that read as times: the slots per day are
  \<open>max 1 ((end - start + block) div block)\<close>, at least 1; the distinct dates are at least
  1; the slots available are the product of the distinct professionals, the distinct dates
  and the slots per day, where the distinct professionals are counted among the
  appointments that have one. When some appointment of the scope has a professional the
  product is positive and the occupancy is the number of appointments divided by it, times
  100. When none has, the product is zero and the occupancy shown is 0.
\<close>

theorem occupancy_formula:
  assumes "block_setting sec = Inr b" and "b \<noteq> 0"
    and "hm_setting (s_workday_start sec) ''09:00'' = Inr (s_h, s_m)"
    and "hm_setting (s_workday_end sec) ''18:30'' = Inr (e_h, e_m)"
    and "''professional_id'' \<in> set cols" and "''date'' \<in> set cols"
    and "scope \<noteq> []" and "\<forall>r\<in>set scope. \<not> is_null (r ''date'')"
  shows "\<exists>oc. occupancy sec cols scope = Inr oc
     \<and> slots_por_dia oc = max 1 ((e_h * 60 + e_m - (s_h * 60 + s_m) + b) div b)
     \<and> 1 \<le> slots_por_dia oc
     \<and> pros_in_scope oc =
         card (merge_key ` {c \<in> (\<lambda>r. r ''professional_id'') ` set scope. \<not> is_null c})
     \<and> dias_distintos oc =
         card (merge_key ` {c \<in> (\<lambda>r. r ''date'') ` set scope. \<not> is_null c})
     \<and> 1 \<le> dias_distintos oc
     \<and> total_slots_disp oc = int (pros_in_scope oc) * int (dias_distintos oc) * slots_por_dia oc
     \<and> (if \<exists>r\<in>set scope. \<not> is_null (r ''professional_id'')
        then 0 < total_slots_disp oc
           \<and> ocup oc = of_nat (length scope) / of_int (total_slots_disp oc) * 100
        else total_slots_disp oc = 0 \<and> ocup oc = 0)"
proof -
  let ?spd = "max 1 ((e_h * 60 + e_m - (s_h * 60 + s_m) + b) div b)"
  let ?p = "nunique (map (\<lambda>r. r ''professional_id'') scope)"
  let ?d = "nunique (map (\<lambda>r. r ''date'') scope)"
  let ?total = "int ?p * int ?d * ?spd"
  let ?oc = "\<lparr>slots_por_dia = ?spd, pros_in_scope = ?p, dias_distintos = ?d,
       total_slots_disp = ?total,
       ocup = (if ?total > 0 then of_nat (length scope) / of_int ?total * 100 else 0)\<rparr>"
  have e: "occupancy sec cols scope = Inr ?oc"
    using assms(1-6) by (simp add: occupancy_def Let_def)
  have spd: "1 \<le> ?spd" by simp
  have d0: "0 < ?d"
  proof -
    from assms(7) obtain r where "r \<in> set scope" by (cases scope) auto
    then have "\<exists>r\<in>set scope. \<not> is_null (r ''date'')"
      using assms(8) by auto
    then show ?thesis using nunique_pos [of "\<lambda>r. r ''date''" scope] by blast
  qed
  then have d1: "1 \<le> ?d" by simp
  have dc: "?d = card (merge_key ` {c \<in> (\<lambda>r. r ''date'') ` set scope. \<not> is_null c})"
    by (simp add: nunique_card)
  have pc: "?p = card (merge_key ` {c \<in> (\<lambda>r. r ''professional_id'') ` set scope. \<not> is_null c})"
    by (simp add: nunique_card)
  have pos: "0 < ?total" if "\<exists>r\<in>set scope. \<not> is_null (r ''professional_id'')"
  proof -
    have "0 < ?p" using that nunique_pos [of "\<lambda>r. r ''professional_id''" scope] by blast
    then have "0 < int ?p * int ?d" using d0 by simp
    then show ?thesis using spd by (simp add: zero_less_mult_iff)
  qed
  have zero: "?total = 0" if "\<not> (\<exists>r\<in>set scope. \<not> is_null (r ''professional_id''))"
  proof -
    have "\<not> 0 < ?p" using that nunique_pos [of "\<lambda>r. r ''professional_id''" scope] by blast
    then show ?thesis by simp
  qed
  show ?thesis
    using e spd d1 dc pc pos zero by (intro exI [of _ ?oc]) (simp del: max.bounded_iff)
qed

theorem occupancy_formula_witness:
  "\<exists>oc. occupancy no_secrets app_cols (rows apps3) = Inr oc
     \<and> slots_por_dia oc = 20 \<and> pros_in_scope oc = 2 \<and> dias_distintos oc = 2
     \<and> total_slots_disp oc = 80 \<and> ocup oc = 15 / 4"
proof -
  have h: "block_setting no_secrets = Inr 30" "(30::int) \<noteq> 0"
    "hm_setting (s_workday_start no_secrets) ''09:00'' = Inr (9, 0)"
    "hm_setting (s_workday_end no_secrets) ''18:30'' = Inr (18, 30)"
    "''professional_id'' \<in> set app_cols" "''date'' \<in> set app_cols"
    by code_simp+
  have n: "rows apps3 \<noteq> []" by (simp add: apps3_def)
  have d: "\<forall>r\<in>set (rows apps3). \<not> is_null (r ''date'')"
    by (simp add: apps3_def appointment_def is_null_def)
  have y: "\<exists>r\<in>set (rows apps3). \<not> is_null (r ''professional_id'')"
    by (simp add: apps3_def appointment_def is_null_def)
  from occupancy_formula [OF h n d] obtain oc where
    e: "occupancy no_secrets app_cols (rows apps3) = Inr oc"
    and s: "slots_por_dia oc = max 1 ((18 * 60 + 30 - (9 * 60 + 0) + 30) div 30)"
    and t: "total_slots_disp oc = int (pros_in_scope oc) * int (dias_distintos oc) * slots_por_dia oc"
    and o: "ocup oc = of_nat (length (rows apps3)) / of_int (total_slots_disp oc) * 100"
    unfolding if_P [OF y] by blast
  have v: "case occupancy no_secrets app_cols (rows apps3) of
      Inr oc \<Rightarrow> pros_in_scope oc = 2 \<and> dias_distintos oc = 2 | Inl e \<Rightarrow> False"
    by code_simp
  have pd: "pros_in_scope oc = 2 \<and> dias_distintos oc = 2" using v e by simp
  have l: "length (rows apps3) = 3" by (simp add: apps3_def)
  have s': "slots_por_dia oc = 20" using s by simp
  have t': "total_slots_disp oc = 80" using t pd s' by simp
  have "ocup oc = 15 / 4" using o l t' by simp
  then show ?thesis using e s' pd t' by blast
qed

text \<open>
  C6, a divisor of zero. An appointment without a professional is in no professional's count: with one such
  appointment in scope there are no slots available at all, the divisor is zero, and the
  page shows an occupancy of 0.
\<close>

theorem occupancy_zero_divisor:
  "(rows apps_no_pro ! 0) ''professional_id'' = NaN
   \<and> (case page_reportes no_secrets apps_no_pro pros2 ''2024-05-01'' ''2024-05-31'' [] of
        Inr (Shown_kpis k (Inr oc)) \<Rightarrow>
          total_citas k = 1 \<and> pros_in_scope oc = 0 \<and> dias_distintos oc = 1
          \<and> slots_por_dia oc = 20 \<and> total_slots_disp oc = 0 \<and> ocup oc = 0
      | _ \<Rightarrow> False)"
  by code_simp

end
